theory Spec2Isabelle
  imports Main "HOL-Library.Multiset"
begin

section \<open>Documents and collections\<close>

text \<open>
  The handlers of \<^verbatim>\<open>server/controllers/post_controller.js\<close> work on three collections
  of documents, \<^verbatim>\<open>Post\<close>, \<^verbatim>\<open>Comment\<close> and \<^verbatim>\<open>User\<close>. A document identifier is an
  object id; it is modelled as a natural number. A collection is the list
  of its documents in insertion order. Array-valued fields (\<^verbatim>\<open>comments\<close>, \<^verbatim>\<open>likes\<close>,
  \<^verbatim>\<open>posts\<close>, \<^verbatim>\<open>bookmarks\<close>) are lists of identifiers, as the database stores them.
\<close>

type_synonym oid = nat
type_synonym timestamp = nat
type_synonym bytes = "nat list"

record post =
  p_id :: oid
  p_caption :: "string option"
  p_image :: string
  p_author :: oid
  p_comments :: "oid list"
  p_likes :: "oid list"
  p_createdAt :: timestamp

record comment =
  c_id :: oid
  c_text :: string
  c_author :: oid
  c_post :: oid
  c_createdAt :: timestamp

record user =
  u_id :: oid
  u_username :: string
  u_profilePicture :: string
  u_password :: string
  u_posts :: "oid list"
  u_bookmarks :: "oid list"

text \<open>
  The two external services of \<^verbatim>\<open>addNewPost\<close> are recorded in a log when they are
  called: the image transcoder (\<^verbatim>\<open>sharp\<close>) and the storage upload
  (\<^verbatim>\<open>cloudinary.uploader.upload\<close>).
\<close>

datatype ext_call = SharpCall bytes | UploadCall string

record db =
  Posts :: "post list"
  Comments :: "comment list"
  Users :: "user list"
  next_oid :: oid
  ext_calls :: "ext_call list"

subsection \<open>The query primitives the handlers use\<close>

text \<open>\<^verbatim>\<open>Model.findById(id)\<close>: the document with that id, or null.\<close>

definition findById :: "('a \<Rightarrow> oid) \<Rightarrow> oid \<Rightarrow> 'a list \<Rightarrow> 'a option" where
  "findById key i xs = find (\<lambda>x. key x = i) xs"

text \<open>
  \<^verbatim>\<open>updateOne\<close>, and \<^verbatim>\<open>save\<close> of a changed document: the first document that matches
  is replaced by its update.
\<close>

fun updateOne :: "('a \<Rightarrow> bool) \<Rightarrow> ('a \<Rightarrow> 'a) \<Rightarrow> 'a list \<Rightarrow> 'a list" where
  "updateOne P f [] = []"
| "updateOne P f (x # xs) = (if P x then f x # xs else x # updateOne P f xs)"

text \<open>\<^verbatim>\<open>Model.findByIdAndDelete(id)\<close>: the first document that matches is removed.\<close>

fun deleteOne :: "('a \<Rightarrow> bool) \<Rightarrow> 'a list \<Rightarrow> 'a list" where
  "deleteOne P [] = []"
| "deleteOne P (x # xs) = (if P x then xs else x # deleteOne P xs)"

text \<open>\<^verbatim>\<open>Model.deleteMany(filter)\<close>: every document that matches is removed.\<close>

definition deleteMany :: "('a \<Rightarrow> bool) \<Rightarrow> 'a list \<Rightarrow> 'a list" where
  "deleteMany P xs = filter (\<lambda>x. \<not> P x) xs"

text \<open>The update operators \<^verbatim>\<open>$addToSet\<close> and \<^verbatim>\<open>$pull\<close> on an array field.\<close>

definition addToSet :: "oid \<Rightarrow> oid list \<Rightarrow> oid list" where
  "addToSet x xs = (if x \<in> set xs then xs else xs @ [x])"

definition pull :: "oid \<Rightarrow> oid list \<Rightarrow> oid list" where
  "pull x xs = filter (\<lambda>y. y \<noteq> x) xs"

text \<open>\<^verbatim>\<open>.sort({ createdAt: -1 })\<close> on a query: newest first.\<close>

definition sort_desc :: "('a \<Rightarrow> timestamp) \<Rightarrow> 'a list \<Rightarrow> 'a list" where
  "sort_desc key xs = rev (sort_key key xs)"

section \<open>Requests, responses and the environment\<close>

text \<open>
  The route parameter \<^verbatim>\<open>req.params.id\<close> is a string that the client chooses. What
  the handlers do with it depends on three kinds of string only:
  \<^item> \<open>Canonical i\<close> is the string that \<^verbatim>\<open>toString\<close> gives for the object id \<open>i\<close>
    (its hexadecimal digits, letters in lower case);
  \<^item> \<open>Respelled i\<close> is another string that casts to the object id \<open>i\<close> (the same
    digits with a letter in upper case, for an id that has a letter among its digits);
  \<^item> \<open>Uncastable str\<close> is a string \<open>str\<close> that is no spelling of an object id, such
    as \<^verbatim>\<open>99\<close>.
\<close>

datatype route_param = Canonical oid | Respelled oid | Uncastable string

text \<open>
  A query that is given the parameter as an id (\<^verbatim>\<open>findById\<close>, \<^verbatim>\<open>findByIdAndDelete\<close>,
  a filter or a new document with the path \<^verbatim>\<open>post\<close>) casts it to an object id first,
  and throws a cast error when the string is no spelling of one.
\<close>

fun castObjectId :: "route_param \<Rightarrow> oid option" where
  "castObjectId (Canonical i) = Some i"
| "castObjectId (Respelled i) = Some i"
| "castObjectId (Uncastable str) = None"

text \<open>
  \<^verbatim>\<open>id.toString() === param\<close>: the comparison of strings holds for the canonical
  spelling of the same id only.
\<close>

fun toString_is :: "oid \<Rightarrow> route_param \<Rightarrow> bool" where
  "toString_is j (Canonical i) = (j = i)"
| "toString_is j (Respelled i) = False"
| "toString_is j (Uncastable str) = False"

text \<open>
  A request carries the requester's id set by the authentication middleware
  (\<^verbatim>\<open>req.id\<close>, the canonical string of a user id), the route parameter
  \<^verbatim>\<open>req.params.id\<close>, the body fields \<^verbatim>\<open>caption\<close> and \<^verbatim>\<open>text\<close> (absent or a
  string) and the uploaded file \<^verbatim>\<open>req.file\<close> (absent or its buffer).
\<close>

record request =
  req_id :: oid
  params_id :: route_param
  body_caption :: "string option"
  body_text :: "string option"
  req_file :: "bytes option"

text \<open>
  What a handler reads from outside the database: the clock that stamps \<^verbatim>\<open>createdAt\<close>,
  the transcoder, the base64 encoder and the upload. A service that throws returns the
  error's message on the left.
\<close>

record env =
  now :: timestamp
  sharp :: "bytes \<Rightarrow> string + bytes"
  toBase64 :: "bytes \<Rightarrow> string"
  upload :: "string \<Rightarrow> string + string"

text \<open>
  What is thrown inside a \<^verbatim>\<open>try\<close> block: the cast error of a query for a route
  parameter, the type error of reading the named property of \<^verbatim>\<open>null\<close>, or the error
  of an external service with its message.
\<close>

datatype thrown = CastError route_param | NullRead string | ServiceError string

text \<open>
  Populated references, as they appear in a response: the author with the selection
  \<^verbatim>\<open>'username profilePicture'\<close> (\<open>Summary\<close>) or \<^verbatim>\<open>'-password'\<close> (\<open>Profile\<close>).
\<close>

datatype author_view =
    Summary oid string string
  | Profile oid string string "oid list" "oid list"

record comment_view =
  cv_comment :: comment
  cv_author :: "author_view option"

record post_view =
  pv_post :: post
  pv_author :: "author_view option"
  pv_comments :: "comment_view list"

text \<open>
  A response is the status given to \<^verbatim>\<open>res.status\<close> and the object given to
  \<^verbatim>\<open>.json\<close>; a key the handler does not write is \<open>None\<close>. The key \<^verbatim>\<open>error\<close> holds
  the message of the error that was caught; the model keeps the error itself.
\<close>

record response =
  r_status :: nat
  r_message :: "string option"
  r_error :: "thrown option"
  r_success :: "bool option"
  r_type :: "string option"
  r_post :: "post_view option"
  r_posts :: "post_view list option"
  r_comment :: "comment_view option"
  r_comments :: "comment_view list option"

definition json :: "nat \<Rightarrow> response" where
  "json st = \<lparr>r_status = st, r_message = None, r_error = None, r_success = None,
     r_type = None, r_post = None, r_posts = None, r_comment = None, r_comments = None\<rparr>"

text \<open>
  The body of a handler's \<^verbatim>\<open>try\<close> block ends in a response or in a thrown error;
  the database is as the block left it. The \<^verbatim>\<open>catch\<close> block turns the error into the
  status 500 response.
\<close>

definition catch500 :: "string \<Rightarrow> db \<times> (thrown + response) \<Rightarrow> db \<times> response" where
  "catch500 msg out =
     (case out of
        (s, Inr resp) \<Rightarrow> (s, resp)
      | (s, Inl err) \<Rightarrow>
          (s, (json 500)\<lparr>r_message := Some msg, r_error := Some err, r_success := Some False\<rparr>))"

subsection \<open>Population\<close>

definition populate_summary :: "db \<Rightarrow> oid \<Rightarrow> author_view option" where
  "populate_summary s i =
     map_option (\<lambda>u. Summary (u_id u) (u_username u) (u_profilePicture u))
       (findById u_id i (Users s))"

definition populate_profile :: "db \<Rightarrow> oid \<Rightarrow> author_view option" where
  "populate_profile s i =
     map_option (\<lambda>u. Profile (u_id u) (u_username u) (u_profilePicture u) (u_posts u) (u_bookmarks u))
       (findById u_id i (Users s))"

definition comment_with_author :: "db \<Rightarrow> comment \<Rightarrow> comment_view" where
  "comment_with_author s c = \<lparr>cv_comment = c, cv_author = populate_summary s (c_author c)\<rparr>"

text \<open>
  \<^verbatim>\<open>getAllPost\<close> and \<^verbatim>\<open>getUserPost\<close> populate the path \<^verbatim>\<open>comments\<close> with the
  argument \<^verbatim>\<open>{ path: 'comments', sort: { createdAt: -1 }, populate: ... }\<close>. The
  \<^verbatim>\<open>sort\<close> key stands beside \<^verbatim>\<open>path\<close>, not under \<^verbatim>\<open>options\<close>, and is not sent
  with the query that fetches the comments: the query finds the comments whose id is in
  the post's id array and returns them in the order of the comment collection, and the
  populated array takes that order.
\<close>

definition populate_comments :: "db \<Rightarrow> oid list \<Rightarrow> comment_view list" where
  "populate_comments s ids =
     map (comment_with_author s) (filter (\<lambda>c. c_id c \<in> set ids) (Comments s))"

definition post_with_refs :: "db \<Rightarrow> post \<Rightarrow> post_view" where
  "post_with_refs s p =
     \<lparr>pv_post = p, pv_author = populate_summary s (p_author p),
      pv_comments = populate_comments s (p_comments p)\<rparr>"

section \<open>The handlers\<close>

text \<open>
  Each handler takes the request and the database and returns the database it leaves
  and the response it sends. The database answers every query; what throws inside a
  \<^verbatim>\<open>try\<close> block is the cast of a route parameter, a call to an external service or
  the read of a property of \<^verbatim>\<open>null\<close>. A handler whose \<^verbatim>\<open>try\<close> block holds none of
  these is written without its \<^verbatim>\<open>catch\<close> block. A \<^verbatim>\<open>save\<close> that follows an
  \<^verbatim>\<open>updateOne\<close> on the same document finds nothing changed in the loaded document
  and writes nothing.
\<close>

subsection \<open>addNewPost\<close>

text \<open>
  The new post gets the next id of the generator and the clock's time. When the author's
  user document exists, the post's id is pushed on its \<^verbatim>\<open>posts\<close> and the document is
  saved.
\<close>

definition addNewPost_try :: "env \<Rightarrow> request \<Rightarrow> db \<Rightarrow> db \<times> (thrown + response)" where
  "addNewPost_try e req s =
     (let caption = body_caption req; image = req_file req; authorId = req_id req in
      case image of
        None \<Rightarrow> (s, Inr ((json 400)\<lparr>r_message := Some ''Image required''\<rparr>))
      | Some buffer \<Rightarrow>
         (let s1 = s\<lparr>ext_calls := ext_calls s @ [SharpCall buffer]\<rparr> in
          case sharp e buffer of
            Inl err \<Rightarrow> (s1, Inl (ServiceError err))
          | Inr optimizedImageBuffer \<Rightarrow>
             (let fileUri = ''data:image/jpeg;base64,'' @ toBase64 e optimizedImageBuffer;
                  s2 = s1\<lparr>ext_calls := ext_calls s1 @ [UploadCall fileUri]\<rparr> in
              case upload e fileUri of
                Inl err \<Rightarrow> (s2, Inl (ServiceError err))
              | Inr secure_url \<Rightarrow>
                 (let post = \<lparr>p_id = next_oid s2, p_caption = caption, p_image = secure_url,
                               p_author = authorId, p_comments = [], p_likes = [],
                               p_createdAt = now e\<rparr>;
                      s3 = s2\<lparr>Posts := Posts s2 @ [post], next_oid := Suc (next_oid s2)\<rparr>;
                      s4 = (case findById u_id authorId (Users s3) of
                              None \<Rightarrow> s3
                            | Some user \<Rightarrow>
                                s3\<lparr>Users := updateOne (\<lambda>u. u_id u = u_id user)
                                     (\<lambda>u. u\<lparr>u_posts := u_posts user @ [p_id post]\<rparr>) (Users s3)\<rparr>)
                  in (s4, Inr ((json 201)\<lparr>r_message := Some ''New post added'',
                        r_post := Some \<lparr>pv_post = post,
                                         pv_author = populate_profile s4 (p_author post),
                                         pv_comments = []\<rparr>,
                        r_success := Some True\<rparr>))))))"

definition addNewPost :: "env \<Rightarrow> request \<Rightarrow> db \<Rightarrow> db \<times> response" where
  "addNewPost e req s = catch500 ''Post failed.'' (addNewPost_try e req s)"

subsection \<open>getAllPost and getUserPost\<close>

definition getAllPost :: "db \<Rightarrow> db \<times> response" where
  "getAllPost s =
     (let posts = map (post_with_refs s) (sort_desc p_createdAt (Posts s))
      in (s, (json 200)\<lparr>r_posts := Some posts, r_success := Some True\<rparr>))"

definition getUserPost :: "request \<Rightarrow> db \<Rightarrow> db \<times> response" where
  "getUserPost req s =
     (let authorId = req_id req;
          posts = map (post_with_refs s)
                    (sort_desc p_createdAt (filter (\<lambda>p. p_author p = authorId) (Posts s)))
      in (s, (json 200)\<lparr>r_posts := Some posts, r_success := Some True\<rparr>))"

subsection \<open>likePost and dislikePost\<close>

definition likePost_try :: "request \<Rightarrow> db \<Rightarrow> db \<times> (thrown + response)" where
  "likePost_try req s =
     (let userId = req_id req; postId = params_id req in
      case castObjectId postId of
        None \<Rightarrow> (s, Inl (CastError postId))
      | Some i \<Rightarrow>
         (case findById p_id i (Posts s) of
            None \<Rightarrow> (s, Inr ((json 404)\<lparr>r_message := Some ''Post not found'',
                                 r_success := Some False\<rparr>))
          | Some post \<Rightarrow>
              (s\<lparr>Posts := updateOne (\<lambda>p. p_id p = p_id post)
                            (\<lambda>p. p\<lparr>p_likes := addToSet userId (p_likes p)\<rparr>) (Posts s)\<rparr>,
               Inr ((json 200)\<lparr>r_message := Some ''Post liked'', r_success := Some True\<rparr>))))"

definition likePost :: "request \<Rightarrow> db \<Rightarrow> db \<times> response" where
  "likePost req s = catch500 ''likePost failed.'' (likePost_try req s)"

definition dislikePost_try :: "request \<Rightarrow> db \<Rightarrow> db \<times> (thrown + response)" where
  "dislikePost_try req s =
     (let userId = req_id req; postId = params_id req in
      case castObjectId postId of
        None \<Rightarrow> (s, Inl (CastError postId))
      | Some i \<Rightarrow>
         (case findById p_id i (Posts s) of
            None \<Rightarrow> (s, Inr ((json 404)\<lparr>r_message := Some ''Post not found'',
                                 r_success := Some False\<rparr>))
          | Some post \<Rightarrow>
              (s\<lparr>Posts := updateOne (\<lambda>p. p_id p = p_id post)
                            (\<lambda>p. p\<lparr>p_likes := pull userId (p_likes p)\<rparr>) (Posts s)\<rparr>,
               Inr ((json 200)\<lparr>r_message := Some ''Post disliked'', r_success := Some True\<rparr>))))"

definition dislikePost :: "request \<Rightarrow> db \<Rightarrow> db \<times> response" where
  "dislikePost req s = catch500 ''dislikePost failed.'' (dislikePost_try req s)"

subsection \<open>addComment and getCommentsOfPost\<close>

text \<open>\<^verbatim>\<open>!text\<close> holds for an absent text and for the empty string.\<close>

definition falsy_text :: "string option \<Rightarrow> bool" where
  "falsy_text t = (case t of None \<Rightarrow> True | Some str \<Rightarrow> str = [])"

text \<open>
  The text is tested first. Then the post is looked up, which casts the route parameter,
  and only then the comment is created; the post that was looked up is not tested
  before its \<^verbatim>\<open>comments\<close> are read.
\<close>

definition addComment_try :: "env \<Rightarrow> request \<Rightarrow> db \<Rightarrow> db \<times> (thrown + response)" where
  "addComment_try e req s =
     (let postId = params_id req; userId = req_id req; text = body_text req in
      if falsy_text text
      then (s, Inr ((json 400)\<lparr>r_message := Some ''Text is required'', r_success := Some False\<rparr>))
      else
       (case castObjectId postId of
          None \<Rightarrow> (s, Inl (CastError postId))
        | Some i \<Rightarrow>
           (let post = findById p_id i (Posts s);
                comment = \<lparr>c_id = next_oid s, c_text = the text, c_author = userId,
                           c_post = i, c_createdAt = now e\<rparr>;
                s1 = s\<lparr>Comments := Comments s @ [comment], next_oid := Suc (next_oid s)\<rparr>;
                populated = comment_with_author s1 comment
            in case post of
                 None \<Rightarrow> (s1, Inl (NullRead ''comments''))
               | Some p \<Rightarrow>
                   (s1\<lparr>Posts := updateOne (\<lambda>q. p_id q = p_id p)
                                  (\<lambda>q. q\<lparr>p_comments := p_comments p @ [c_id comment]\<rparr>)
                                  (Posts s1)\<rparr>,
                    Inr ((json 201)\<lparr>r_message := Some ''Comment added'',
                           r_comment := Some populated, r_success := Some True\<rparr>)))))"

definition addComment :: "env \<Rightarrow> request \<Rightarrow> db \<Rightarrow> db \<times> response" where
  "addComment e req s = catch500 ''comment failed.'' (addComment_try e req s)"

text \<open>
  \<^verbatim>\<open>Comment.find\<close> returns an array, and an array is never falsy: the 404 branch of
  \<^verbatim>\<open>getCommentsOfPost\<close> is not taken.
\<close>

definition getCommentsOfPost_try :: "request \<Rightarrow> db \<Rightarrow> db \<times> (thrown + response)" where
  "getCommentsOfPost_try req s =
     (let postId = params_id req in
      case castObjectId postId of
        None \<Rightarrow> (s, Inl (CastError postId))
      | Some i \<Rightarrow>
         (let comments = map (comment_with_author s) (filter (\<lambda>c. c_post c = i) (Comments s))
          in (s, Inr ((json 200)\<lparr>r_success := Some True, r_comments := Some comments\<rparr>))))"

definition getCommentsOfPost :: "request \<Rightarrow> db \<Rightarrow> db \<times> response" where
  "getCommentsOfPost req s =
     catch500 ''getCommentsOfPost failed.'' (getCommentsOfPost_try req s)"

subsection \<open>deletePost\<close>

text \<open>
  The three writes follow one another: the post, then the author's \<^verbatim>\<open>posts\<close>, then
  the comments. A missing user document makes the second throw after the first is done.
  The queries cast the route parameter; the filter on the author's \<^verbatim>\<open>posts\<close> compares
  the string of each id with the parameter as it came.
\<close>

definition deletePost_try :: "request \<Rightarrow> db \<Rightarrow> db \<times> (thrown + response)" where
  "deletePost_try req s =
     (let postId = params_id req; authorId = req_id req in
      case castObjectId postId of
        None \<Rightarrow> (s, Inl (CastError postId))
      | Some i \<Rightarrow>
         (case findById p_id i (Posts s) of
            None \<Rightarrow> (s, Inr ((json 404)\<lparr>r_message := Some ''Post not found'',
                                 r_success := Some False\<rparr>))
          | Some post \<Rightarrow>
              if p_author post \<noteq> authorId
              then (s, Inr ((json 403)\<lparr>r_message := Some ''Unauthorized''\<rparr>))
              else
               (let s1 = s\<lparr>Posts := deleteOne (\<lambda>p. p_id p = i) (Posts s)\<rparr> in
                case findById u_id authorId (Users s1) of
                  None \<Rightarrow> (s1, Inl (NullRead ''posts''))
                | Some user \<Rightarrow>
                   (let s2 = s1\<lparr>Users := updateOne (\<lambda>u. u_id u = u_id user)
                                   (\<lambda>u. u\<lparr>u_posts := filter (\<lambda>j. \<not> toString_is j postId)
                                                          (u_posts user)\<rparr>)
                                   (Users s1)\<rparr>;
                        s3 = s2\<lparr>Comments := deleteMany (\<lambda>c. c_post c = i) (Comments s2)\<rparr>
                    in (s3, Inr ((json 200)\<lparr>r_success := Some True,
                                   r_message := Some ''Post deleted''\<rparr>))))))"

definition deletePost :: "request \<Rightarrow> db \<Rightarrow> db \<times> response" where
  "deletePost req s = catch500 ''deletePost failed.'' (deletePost_try req s)"

subsection \<open>bookmarkPost\<close>

text \<open>
  \<^verbatim>\<open>user.bookmarks.includes(post._id)\<close> on the array of a loaded document compares
  ids by value.
\<close>

definition bookmarkPost_try :: "request \<Rightarrow> db \<Rightarrow> db \<times> (thrown + response)" where
  "bookmarkPost_try req s =
     (let postId = params_id req; userId = req_id req in
      case castObjectId postId of
        None \<Rightarrow> (s, Inl (CastError postId))
      | Some i \<Rightarrow>
         (case findById p_id i (Posts s) of
            None \<Rightarrow> (s, Inr ((json 404)\<lparr>r_message := Some ''Post not found'',
                                 r_success := Some False\<rparr>))
          | Some post \<Rightarrow>
             (case findById u_id userId (Users s) of
                None \<Rightarrow> (s, Inl (NullRead ''bookmarks''))
              | Some user \<Rightarrow>
                  if p_id post \<in> set (u_bookmarks user)
                  then (s\<lparr>Users := updateOne (\<lambda>u. u_id u = u_id user)
                                     (\<lambda>u. u\<lparr>u_bookmarks := pull (p_id post) (u_bookmarks u)\<rparr>)
                                     (Users s)\<rparr>,
                        Inr ((json 200)\<lparr>r_type := Some ''unsaved'',
                               r_message := Some ''Post removed from bookmark'',
                               r_success := Some True\<rparr>))
                  else (s\<lparr>Users := updateOne (\<lambda>u. u_id u = u_id user)
                                     (\<lambda>u. u\<lparr>u_bookmarks := addToSet (p_id post) (u_bookmarks u)\<rparr>)
                                     (Users s)\<rparr>,
                        Inr ((json 200)\<lparr>r_type := Some ''saved'',
                               r_message := Some ''Post bookmarked'',
                               r_success := Some True\<rparr>)))))"

definition bookmarkPost :: "request \<Rightarrow> db \<Rightarrow> db \<times> response" where
  "bookmarkPost req s = catch500 ''bookmarkPost failed.'' (bookmarkPost_try req s)"

section \<open>Observations and example data\<close>

text \<open>The likes of a post and the bookmarks of a user, as stored; empty when there is no such document.\<close>

definition likes_of :: "db \<Rightarrow> oid \<Rightarrow> oid list" where
  "likes_of s i = (case findById p_id i (Posts s) of None \<Rightarrow> [] | Some p \<Rightarrow> p_likes p)"

definition bookmarks_of :: "db \<Rightarrow> oid \<Rightarrow> oid list" where
  "bookmarks_of s i = (case findById u_id i (Users s) of None \<Rightarrow> [] | Some u \<Rightarrow> u_bookmarks u)"

text \<open>The creation times of the posts of a listing, and of the comments attached to each.\<close>

definition post_times :: "response \<Rightarrow> timestamp list" where
  "post_times r =
     (case r_posts r of None \<Rightarrow> [] | Some vs \<Rightarrow> map (\<lambda>v. p_createdAt (pv_post v)) vs)"

definition comment_times :: "response \<Rightarrow> timestamp list list" where
  "comment_times r =
     (case r_posts r of
        None \<Rightarrow> []
      | Some vs \<Rightarrow> map (\<lambda>v. map (\<lambda>c. c_createdAt (cv_comment c)) (pv_comments v)) vs)"

definition newest_first :: "timestamp list \<Rightarrow> bool" where
  "newest_first ts = sorted_wrt (\<lambda>a b. b \<le> a) ts"

text \<open>A small database: two users, one post of the first user, no comments.\<close>

definition alice :: user where
  "alice = \<lparr>u_id = 1, u_username = ''alice'', u_profilePicture = ''a.png'',
            u_password = ''pw1'', u_posts = [10], u_bookmarks = []\<rparr>"

definition bob :: user where
  "bob = \<lparr>u_id = 2, u_username = ''bob'', u_profilePicture = ''b.png'',
          u_password = ''pw2'', u_posts = [], u_bookmarks = []\<rparr>"

definition post10 :: post where
  "post10 = \<lparr>p_id = 10, p_caption = Some ''hello'', p_image = ''https://cdn/10.jpg'',
             p_author = 1, p_comments = [], p_likes = [], p_createdAt = 3\<rparr>"

definition db0 :: db where
  "db0 = \<lparr>Posts = [post10], Comments = [], Users = [alice, bob], next_oid = 100,
          ext_calls = []\<rparr>"

definition env_at :: "timestamp \<Rightarrow> env" where
  "env_at t = \<lparr>now = t, sharp = (\<lambda>b. Inr b), toBase64 = (\<lambda>b. ''QUJD''),
               upload = (\<lambda>u. Inr ''https://cdn/new.jpg'')\<rparr>"

text \<open>
  The request of user \<open>u\<close> with the canonical string of the id \<open>p\<close> as route
  parameter, the text \<^verbatim>\<open>nice\<close> and no file.
\<close>

definition req_of :: "oid \<Rightarrow> oid \<Rightarrow> request" where
  "req_of u p = \<lparr>req_id = u, params_id = Canonical p, body_caption = None,
                 body_text = Some ''nice'', req_file = None\<rparr>"

text \<open>The same request with another string as route parameter.\<close>

definition req_with :: "oid \<Rightarrow> route_param \<Rightarrow> request" where
  "req_with u prm = (req_of u 0)\<lparr>params_id := prm\<rparr>"

text \<open>The add-post request of user \<open>u\<close> with an image.\<close>

definition req_upload :: "oid \<Rightarrow> request" where
  "req_upload u = \<lparr>req_id = u, params_id = Uncastable [], body_caption = Some ''mine'',
                    body_text = None, req_file = Some [1, 2, 3]\<rparr>"

text \<open>The database after two comments on the post, the first at time 7, the second at time 8.\<close>

definition db_two_comments :: db where
  "db_two_comments =
     fst (addComment (env_at 8) (req_of 1 10) (fst (addComment (env_at 7) (req_of 2 10) db0)))"

text \<open>
  The database after requester 7, who has no user document, has added a post (it gets
  the id 100) and user 2 has commented on it (the comment gets the id 101).
\<close>

definition db_no_document :: db where
  "db_no_document =
     fst (addComment (env_at 6) (req_of 2 100) (fst (addNewPost (env_at 5) (req_upload 7) db0)))"

text \<open>
  A route parameter matches an existing post when it casts to the id of a post of the
  collection.
\<close>

definition matches_post :: "db \<Rightarrow> route_param \<Rightarrow> bool" where
  "matches_post s prm =
     (case castObjectId prm of None \<Rightarrow> False | Some i \<Rightarrow> findById p_id i (Posts s) \<noteq> None)"

section \<open>Well-formed databases\<close>

text \<open>
  What the database guarantees of its collections: ids are unique within a collection,
  the ids of posts and comments were issued by the id generator, and no likes array
  holds an id twice (a post is created with no likes, and likes are only changed by
  \<^verbatim>\<open>$addToSet\<close> and \<^verbatim>\<open>$pull\<close>).
\<close>

definition wf_db :: "db \<Rightarrow> bool" where
  "wf_db s \<longleftrightarrow>
     distinct (map p_id (Posts s)) \<and> distinct (map c_id (Comments s)) \<and>
     distinct (map u_id (Users s)) \<and>
     list_all (\<lambda>p. p_id p < next_oid s \<and> distinct (p_likes p)) (Posts s) \<and>
     list_all (\<lambda>c. c_id c < next_oid s) (Comments s)"

section \<open>Facts about the query primitives\<close>

lemma findById_Some_key: "findById key i xs = Some x \<Longrightarrow> key x = i"
  by (auto simp: findById_def find_Some_iff)

lemma findById_None_iff: "findById key i xs = None \<longleftrightarrow> i \<notin> key ` set xs"
  by (auto simp: findById_def find_None_iff)

lemma findById_updateOne_same:
  "(\<And>x. key (f x) = key x) \<Longrightarrow>
   findById key i (updateOne (\<lambda>x. key x = i) f xs) = map_option f (findById key i xs)"
  by (induction xs) (auto simp: findById_def)

lemma findById_updateOne_other:
  "(\<And>x. key (f x) = key x) \<Longrightarrow> i \<noteq> j \<Longrightarrow>
   findById key i (updateOne (\<lambda>x. key x = j) f xs) = findById key i xs"
  by (induction xs) (auto simp: findById_def)

lemma updateOne_fixed:
  "findById key i xs = Some x \<Longrightarrow> f x = x \<Longrightarrow> updateOne (\<lambda>x. key x = i) f xs = xs"
  by (induction xs) (auto simp: findById_def split: if_splits)

lemma updateOne_twice:
  "(\<And>x. key (f x) = key x) \<Longrightarrow>
   updateOne (\<lambda>x. key x = i) g (updateOne (\<lambda>x. key x = i) f xs)
     = updateOne (\<lambda>x. key x = i) (g \<circ> f) xs"
  by (induction xs) auto

lemma map_key_updateOne:
  "(\<And>x. key (f x) = key x) \<Longrightarrow> map key (updateOne P f xs) = map key xs"
  by (induction xs) auto

lemma list_all_updateOne:
  "list_all Q xs \<Longrightarrow> (\<And>x. Q x \<Longrightarrow> Q (f x)) \<Longrightarrow> list_all Q (updateOne P f xs)"
  by (induction xs) auto

lemma set_deleteOne_subset: "set (deleteOne P xs) \<subseteq> set xs"
  by (induction xs) auto

lemma deleteOne_distinct:
  "distinct (map key xs) \<Longrightarrow> i \<notin> key ` set (deleteOne (\<lambda>x. key x = i) xs)"
  by (induction xs) auto

lemma distinct_map_deleteOne:
  "distinct (map key xs) \<Longrightarrow> distinct (map key (deleteOne P xs))"
proof (induction xs)
  case Nil
  then show ?case by simp
next
  case (Cons x xs)
  have "set (deleteOne P xs) \<subseteq> set xs" by (rule set_deleteOne_subset)
  with Cons show ?case by auto
qed

lemma list_all_deleteOne: "list_all Q xs \<Longrightarrow> list_all Q (deleteOne P xs)"
  by (induction xs) auto

lemma list_all_filter: "list_all Q xs \<Longrightarrow> list_all Q (filter P xs)"
  by (induction xs) auto

lemma list_all_mono_oid:
  "list_all (\<lambda>x. key x < (n::nat) \<and> R x) xs \<Longrightarrow> list_all (\<lambda>x. key x < Suc n \<and> R x) xs"
  by (induction xs) auto

lemma fresh_not_in: "list_all (\<lambda>x. key x < (n::nat) \<and> R x) xs \<Longrightarrow> n \<notin> key ` set xs"
  by (induction xs) auto

lemma addToSet_idem: "addToSet x (addToSet x xs) = addToSet x xs"
  by (simp add: addToSet_def)

lemma pull_absent: "x \<notin> set xs \<Longrightarrow> pull x xs = xs"
  by (auto simp: pull_def filter_id_conv)

lemma pull_addToSet: "x \<notin> set xs \<Longrightarrow> pull x (addToSet x xs) = xs"
  by (auto simp: pull_def addToSet_def filter_id_conv)

lemma distinct_addToSet: "distinct xs \<Longrightarrow> distinct (addToSet x xs)"
  by (simp add: addToSet_def)

lemma count_addToSet: "distinct xs \<Longrightarrow> count_list (addToSet x xs) x = 1"
  by (induction xs) (auto simp: addToSet_def split: if_splits)

lemma sort_desc_newest_first: "newest_first (map key (sort_desc key xs))"
proof -
  have "sorted (map key (sort_key key xs))" by (rule sorted_sort_key)
  then have "sorted_wrt (\<lambda>a b. b \<le> a) (rev (map key (sort_key key xs)))"
    by (simp add: sorted_wrt_rev)
  then show ?thesis by (simp add: newest_first_def sort_desc_def rev_map)
qed

lemma mset_sort_desc: "mset (sort_desc key xs) = mset xs"
  by (simp add: sort_desc_def)

section \<open>Every handler keeps the database well-formed\<close>

lemma wf_db0: "wf_db db0"
  by (simp add: wf_db_def db0_def post10_def alice_def bob_def)

lemma wf_getAllPost: "wf_db s \<Longrightarrow> wf_db (fst (getAllPost s))"
  by (simp add: getAllPost_def)

lemma wf_getUserPost: "wf_db s \<Longrightarrow> wf_db (fst (getUserPost req s))"
  by (simp add: getUserPost_def)

lemma wf_getCommentsOfPost: "wf_db s \<Longrightarrow> wf_db (fst (getCommentsOfPost req s))"
  by (simp add: getCommentsOfPost_def getCommentsOfPost_try_def catch500_def Let_def
      split: option.splits)

lemma wf_likePost: "wf_db s \<Longrightarrow> wf_db (fst (likePost req s))"
  by (auto simp: wf_db_def likePost_def likePost_try_def catch500_def Let_def
           map_key_updateOne distinct_addToSet
           intro!: list_all_updateOne split: option.splits)

lemma wf_dislikePost: "wf_db s \<Longrightarrow> wf_db (fst (dislikePost req s))"
  by (auto simp: wf_db_def dislikePost_def dislikePost_try_def catch500_def Let_def
           map_key_updateOne pull_def
           intro!: list_all_updateOne split: option.splits)

lemma wf_bookmarkPost: "wf_db s \<Longrightarrow> wf_db (fst (bookmarkPost req s))"
  by (auto simp: wf_db_def bookmarkPost_def bookmarkPost_try_def catch500_def Let_def
           map_key_updateOne split: option.splits)

lemma wf_deletePost: "wf_db s \<Longrightarrow> wf_db (fst (deletePost req s))"
  by (auto simp: wf_db_def deletePost_def deletePost_try_def catch500_def Let_def
           map_key_updateOne distinct_map_deleteOne list_all_deleteOne deleteMany_def
           distinct_map_filter list_all_filter split: option.splits)

lemma wf_addComment: "wf_db s \<Longrightarrow> wf_db (fst (addComment e req s))"
proof -
  assume wf: "wf_db s"
  then have fresh: "next_oid s \<notin> c_id ` set (Comments s)"
    using fresh_not_in[of c_id "next_oid s" "\<lambda>_. True" "Comments s"] by (simp add: wf_db_def)
  from wf have up: "list_all (\<lambda>c. c_id c < Suc (next_oid s)) (Comments s)"
    using list_all_mono_oid[of c_id "next_oid s" "\<lambda>_. True" "Comments s"]
    by (simp add: wf_db_def)
  from wf have upp: "list_all (\<lambda>p. p_id p < Suc (next_oid s) \<and> distinct (p_likes p)) (Posts s)"
    by (simp add: wf_db_def list_all_mono_oid)
  show ?thesis
    using wf fresh up upp
    by (auto simp: wf_db_def addComment_def addComment_try_def catch500_def Let_def
           map_key_updateOne intro!: list_all_updateOne split: option.splits)
qed

lemma wf_addNewPost: "wf_db s \<Longrightarrow> wf_db (fst (addNewPost e req s))"
proof -
  assume wf: "wf_db s"
  then have fresh: "next_oid s \<notin> p_id ` set (Posts s)"
    using fresh_not_in[of p_id "next_oid s" "\<lambda>p. distinct (p_likes p)" "Posts s"]
    by (simp add: wf_db_def)
  from wf have up: "list_all (\<lambda>c. c_id c < Suc (next_oid s)) (Comments s)"
    using list_all_mono_oid[of c_id "next_oid s" "\<lambda>_. True" "Comments s"]
    by (simp add: wf_db_def)
  from wf have upp: "list_all (\<lambda>p. p_id p < Suc (next_oid s) \<and> distinct (p_likes p)) (Posts s)"
    by (simp add: wf_db_def list_all_mono_oid)
  show ?thesis
    using wf fresh up upp
    by (auto simp: wf_db_def addNewPost_def addNewPost_try_def catch500_def Let_def
           map_key_updateOne split: option.splits sum.splits)
qed

lemma db_two_comments_eq:
  "db_two_comments =
     \<lparr>Posts = [post10\<lparr>p_comments := [100, 101]\<rparr>],
      Comments = [\<lparr>c_id = 100, c_text = ''nice'', c_author = 2, c_post = 10, c_createdAt = 7\<rparr>,
                  \<lparr>c_id = 101, c_text = ''nice'', c_author = 1, c_post = 10, c_createdAt = 8\<rparr>],
      Users = [alice, bob], next_oid = 102, ext_calls = []\<rparr>"
  by (simp add: db_two_comments_def addComment_def addComment_try_def catch500_def
      falsy_text_def Let_def findById_def db0_def post10_def req_of_def env_at_def)

lemma db_no_document_eq:
  "db_no_document =
     \<lparr>Posts = [post10,
               \<lparr>p_id = 100, p_caption = Some ''mine'', p_image = ''https://cdn/new.jpg'',
                p_author = 7, p_comments = [101], p_likes = [], p_createdAt = 5\<rparr>],
      Comments = [\<lparr>c_id = 101, c_text = ''nice'', c_author = 2, c_post = 100, c_createdAt = 6\<rparr>],
      Users = [alice, bob], next_oid = 102,
      ext_calls = [SharpCall [1, 2, 3], UploadCall ''data:image/jpeg;base64,QUJD'']\<rparr>"
  by (simp add: db_no_document_def addComment_def addComment_try_def addNewPost_def
      addNewPost_try_def catch500_def falsy_text_def Let_def findById_def db0_def post10_def
      alice_def bob_def req_of_def req_upload_def env_at_def)

section \<open>Adding a post\<close>

text \<open>
  Claim C9. An add-post request that carries no image is answered with status 400
  (the validation failure) and the message \<^verbatim>\<open>Image required\<close>; the log of calls to
  the transcoder and to the upload is as it was, so neither was reached, and the post
  collection, indeed the whole database, is unchanged.
\<close>

theorem addNewPost_without_image:
  assumes "req_file req = None"
  shows "r_status (snd (addNewPost e req s)) = 400
       \<and> r_message (snd (addNewPost e req s)) = Some ''Image required''
       \<and> ext_calls (fst (addNewPost e req s)) = ext_calls s
       \<and> Posts (fst (addNewPost e req s)) = Posts s
       \<and> fst (addNewPost e req s) = s"
  using assms by (simp add: addNewPost_def addNewPost_try_def catch500_def json_def)

theorem addNewPost_without_image_witness:
  "req_file (req_of 2 10) = None
   \<and> r_status (snd (addNewPost (env_at 9) (req_of 2 10) db0)) = 400
   \<and> ext_calls (fst (addNewPost (env_at 9) (req_of 2 10) db0)) = ext_calls db0
   \<and> Posts (fst (addNewPost (env_at 9) (req_of 2 10) db0)) = Posts db0"
proof -
  have h: "req_file (req_of 2 10) = None" by (simp add: req_of_def)
  show ?thesis
    using h addNewPost_without_image [OF h, of "env_at 9" db0] by simp
qed

text \<open>With an image the transcoder is called, and the log shows it.\<close>

lemma addNewPost_with_image_calls_sharp:
  assumes "req_file req = Some buffer"
  shows "SharpCall buffer \<in> set (ext_calls (fst (addNewPost e req s)))"
  using assms
  by (auto simp: addNewPost_def addNewPost_try_def catch500_def Let_def
           split: sum.splits option.splits)

section \<open>Likes\<close>

lemma likePost_found:
  assumes "castObjectId (params_id req) = Some i"
    and "findById p_id i (Posts s) = Some p"
  shows "likePost req s =
      (s\<lparr>Posts := updateOne (\<lambda>q. p_id q = i)
                     (\<lambda>q. q\<lparr>p_likes := addToSet (req_id req) (p_likes q)\<rparr>) (Posts s)\<rparr>,
       (json 200)\<lparr>r_message := Some ''Post liked'', r_success := Some True\<rparr>)"
  using assms findById_Some_key[OF assms(2)]
  by (simp add: likePost_def likePost_try_def catch500_def)

lemma likes_of_likePost:
  assumes "castObjectId (params_id req) = Some i"
    and "findById p_id i (Posts s) = Some p"
  shows "likes_of (fst (likePost req s)) i = addToSet (req_id req) (p_likes p)"
  using assms(2)
  by (simp add: likePost_found[OF assms] likes_of_def findById_updateOne_same)

text \<open>
  Claim C7. For a request whose route parameter is the id of an existing post, liking
  the post twice in succession by the same user leaves the database, and so the likes
  of the post, as one like leaves them; the second like does not change the number of
  likes; and the user's id is in the likes exactly once. Both requests are answered
  with status 200. The likes array of the post holds no id twice beforehand, as in
  every well-formed database.
\<close>

theorem likePost_twice:
  assumes "castObjectId (params_id req) = Some i"
    and "findById p_id i (Posts s) = Some p"
    and "distinct (p_likes p)"
  shows "fst (likePost req (fst (likePost req s))) = fst (likePost req s)
       \<and> likes_of (fst (likePost req (fst (likePost req s)))) i
           = likes_of (fst (likePost req s)) i
       \<and> length (likes_of (fst (likePost req (fst (likePost req s)))) i)
           = length (likes_of (fst (likePost req s)) i)
       \<and> count_list (likes_of (fst (likePost req s)) i) (req_id req) = 1
       \<and> r_status (snd (likePost req s)) = 200
       \<and> r_status (snd (likePost req (fst (likePost req s)))) = 200"
proof -
  let ?f = "\<lambda>q. q\<lparr>p_likes := addToSet (req_id req) (p_likes q)\<rparr>"
  let ?s1 = "s\<lparr>Posts := updateOne (\<lambda>q. p_id q = i) ?f (Posts s)\<rparr>"
  have once: "likePost req s =
      (?s1, (json 200)\<lparr>r_message := Some ''Post liked'', r_success := Some True\<rparr>)"
    using assms(1,2) by (rule likePost_found)
  have found1: "findById p_id i (Posts ?s1) = Some (?f p)"
    using assms(2) by (simp add: findById_updateOne_same)
  have twice: "likePost req ?s1 =
      (?s1\<lparr>Posts := updateOne (\<lambda>q. p_id q = i) ?f (Posts ?s1)\<rparr>,
       (json 200)\<lparr>r_message := Some ''Post liked'', r_success := Some True\<rparr>)"
    using assms(1) found1 by (rule likePost_found)
  have fixed: "updateOne (\<lambda>q. p_id q = i) ?f (Posts ?s1) = Posts ?s1"
    using found1 by (rule updateOne_fixed) (simp add: addToSet_idem)
  have same: "fst (likePost req (fst (likePost req s))) = fst (likePost req s)"
    using fixed by (simp add: once twice)
  have cnt: "count_list (likes_of (fst (likePost req s)) i) (req_id req) = 1"
    using assms by (simp add: likes_of_likePost count_addToSet)
  show ?thesis
    using same cnt by (simp add: once twice json_def)
qed

theorem likePost_twice_witness:
  "castObjectId (params_id (req_of 2 10)) = Some 10
   \<and> findById p_id 10 (Posts db0) = Some post10
   \<and> distinct (p_likes post10)
   \<and> likes_of (fst (likePost (req_of 2 10) (fst (likePost (req_of 2 10) db0)))) 10 = [2]
   \<and> likes_of (fst (likePost (req_of 2 10) db0)) 10 = [2]
   \<and> count_list (likes_of (fst (likePost (req_of 2 10) db0)) 10) (req_id (req_of 2 10)) = 1"
proof -
  have h0: "castObjectId (params_id (req_of 2 10)) = Some 10"
    by (simp add: req_of_def)
  have h1: "findById p_id 10 (Posts db0) = Some post10"
    by (simp add: findById_def db0_def post10_def)
  have h2: "distinct (p_likes post10)"
    by (simp add: post10_def)
  have l1: "likes_of (fst (likePost (req_of 2 10) db0)) 10 = [2]"
    using likes_of_likePost [OF h0 h1]
    by (simp add: req_of_def post10_def addToSet_def)
  show ?thesis
    using h0 h1 h2 l1 likePost_twice [OF h0 h1 h2] by simp
qed

text \<open>
  Claim C8. For a request whose route parameter is the id of an existing post and a
  user whose id is not among its likes, the dislike request is answered with status 200
  and \<^verbatim>\<open>success: true\<close>, and the database, and so the likes of the post, are
  unchanged.
\<close>

theorem dislikePost_not_liked:
  assumes "castObjectId (params_id req) = Some i"
    and "findById p_id i (Posts s) = Some p"
    and "req_id req \<notin> set (p_likes p)"
  shows "dislikePost req s =
           (s, (json 200)\<lparr>r_message := Some ''Post disliked'', r_success := Some True\<rparr>)
       \<and> likes_of (fst (dislikePost req s)) i = likes_of s i"
proof -
  have key: "p_id p = i" using assms(2) by (rule findById_Some_key)
  have "updateOne (\<lambda>q. p_id q = i)
          (\<lambda>q. q\<lparr>p_likes := pull (req_id req) (p_likes q)\<rparr>) (Posts s) = Posts s"
    using assms(2) by (rule updateOne_fixed) (simp add: pull_absent assms(3))
  then have "dislikePost req s =
           (s, (json 200)\<lparr>r_message := Some ''Post disliked'', r_success := Some True\<rparr>)"
    using assms(1,2) key by (simp add: dislikePost_def dislikePost_try_def catch500_def)
  then show ?thesis by simp
qed

theorem dislikePost_not_liked_witness:
  "castObjectId (params_id (req_of 2 10)) = Some 10
   \<and> findById p_id 10 (Posts (fst (likePost (req_of 1 10) db0)))
       = Some (post10\<lparr>p_likes := [1]\<rparr>)
   \<and> req_id (req_of 2 10) \<notin> set (p_likes (post10\<lparr>p_likes := [1]\<rparr>))
   \<and> r_status (snd (dislikePost (req_of 2 10) (fst (likePost (req_of 1 10) db0)))) = 200
   \<and> likes_of (fst (dislikePost (req_of 2 10) (fst (likePost (req_of 1 10) db0)))) 10 = [1]"
proof -
  let ?s = "fst (likePost (req_of 1 10) db0)"
  have h0: "castObjectId (params_id (req_of 2 10)) = Some 10"
    by (simp add: req_of_def)
  have h1: "findById p_id 10 (Posts ?s) = Some (post10\<lparr>p_likes := [1]\<rparr>)"
    by (simp add: likePost_def likePost_try_def catch500_def findById_def req_of_def
        db0_def post10_def addToSet_def)
  have h2: "req_id (req_of 2 10) \<notin> set (p_likes (post10\<lparr>p_likes := [1]\<rparr>))"
    by (simp add: req_of_def)
  have l: "likes_of ?s 10 = [1]"
    using h1 by (simp add: likes_of_def)
  show ?thesis
    using h0 h1 h2 l dislikePost_not_liked [OF h0 h1 h2] by (simp add: json_def)
qed

section \<open>Bookmarks\<close>

text \<open>
  Claim C6. For an existing user and a request whose route parameter is the id of an
  existing post that is not among the user's bookmarks, two bookmark requests in
  succession by that user are answered with the result tag \<^verbatim>\<open>saved\<close> and then
  \<^verbatim>\<open>unsaved\<close>, and afterwards the user's bookmarks, indeed the whole database, are
  as they were at the start.
\<close>

theorem bookmarkPost_twice:
  assumes "castObjectId (params_id req) = Some i"
    and "findById p_id i (Posts s) = Some p"
    and "findById u_id (req_id req) (Users s) = Some u"
    and "i \<notin> set (u_bookmarks u)"
  shows "r_type (snd (bookmarkPost req s)) = Some ''saved''
       \<and> r_type (snd (bookmarkPost req (fst (bookmarkPost req s)))) = Some ''unsaved''
       \<and> bookmarks_of (fst (bookmarkPost req (fst (bookmarkPost req s)))) (req_id req)
           = bookmarks_of s (req_id req)
       \<and> fst (bookmarkPost req (fst (bookmarkPost req s))) = s"
proof -
  let ?u = "req_id req"
  let ?add = "\<lambda>v. v\<lparr>u_bookmarks := addToSet i (u_bookmarks v)\<rparr>"
  let ?rem = "\<lambda>v. v\<lparr>u_bookmarks := pull i (u_bookmarks v)\<rparr>"
  have pk: "p_id p = i" using assms(2) by (rule findById_Some_key)
  have uk: "u_id u = ?u" using assms(3) by (rule findById_Some_key)
  let ?s1 = "s\<lparr>Users := updateOne (\<lambda>v. u_id v = ?u) ?add (Users s)\<rparr>"
  have step1: "bookmarkPost req s =
      (?s1, (json 200)\<lparr>r_type := Some ''saved'', r_message := Some ''Post bookmarked'',
                        r_success := Some True\<rparr>)"
    using assms pk uk by (simp add: bookmarkPost_def bookmarkPost_try_def catch500_def)
  have found: "findById u_id ?u (Users ?s1) = Some (?add u)"
    using assms(3) by (simp add: findById_updateOne_same)
  have mem: "i \<in> set (u_bookmarks (?add u))"
    by (simp add: addToSet_def)
  let ?s2 = "?s1\<lparr>Users := updateOne (\<lambda>v. u_id v = ?u) ?rem (Users ?s1)\<rparr>"
  have step2: "bookmarkPost req ?s1 =
      (?s2, (json 200)\<lparr>r_type := Some ''unsaved'',
                        r_message := Some ''Post removed from bookmark'',
                        r_success := Some True\<rparr>)"
    using assms(1,2) found mem pk uk
    by (simp add: bookmarkPost_def bookmarkPost_try_def catch500_def)
  have "updateOne (\<lambda>v. u_id v = ?u) ?rem (Users ?s1)
        = updateOne (\<lambda>v. u_id v = ?u) (?rem \<circ> ?add) (Users s)"
    by (simp add: updateOne_twice)
  also have "\<dots> = Users s"
    using assms(3) by (rule updateOne_fixed) (simp add: pull_addToSet assms(4))
  finally have restored: "?s2 = s" by simp
  show ?thesis
    using restored by (simp add: step1 step2 json_def)
qed

theorem bookmarkPost_twice_witness:
  "castObjectId (params_id (req_of 2 10)) = Some 10
   \<and> findById p_id 10 (Posts db0) = Some post10
   \<and> findById u_id (req_id (req_of 2 10)) (Users db0) = Some bob
   \<and> 10 \<notin> set (u_bookmarks bob)
   \<and> r_type (snd (bookmarkPost (req_of 2 10) db0)) = Some ''saved''
   \<and> r_type (snd (bookmarkPost (req_of 2 10) (fst (bookmarkPost (req_of 2 10) db0))))
       = Some ''unsaved''
   \<and> fst (bookmarkPost (req_of 2 10) (fst (bookmarkPost (req_of 2 10) db0))) = db0"
proof -
  have h0: "castObjectId (params_id (req_of 2 10)) = Some 10"
    by (simp add: req_of_def)
  have h1: "findById p_id 10 (Posts db0) = Some post10"
    by (simp add: findById_def db0_def post10_def)
  have h2: "findById u_id (req_id (req_of 2 10)) (Users db0) = Some bob"
    by (simp add: findById_def req_of_def db0_def alice_def bob_def)
  have h3: "10 \<notin> set (u_bookmarks bob)"
    by (simp add: bob_def)
  from bookmarkPost_twice [OF h0 h1 h2 h3] h0 h1 h2 h3
  show ?thesis by blast
qed

section \<open>Deleting a post\<close>

text \<open>
  What the delete does when everything it reads is there: in a database with unique
  post ids, for a route parameter that is the canonical string of the id of an existing
  post whose author is the requester, and a requester who has a user document, the
  request is answered with status 200, and afterwards no post has that id, no comment
  refers to it, and the id is not in the author's list of owned posts.
\<close>

lemma deletePost_by_author_with_document:
  assumes "distinct (map p_id (Posts s))"
    and "params_id req = Canonical i"
    and "findById p_id i (Posts s) = Some p"
    and "p_author p = req_id req"
    and "findById u_id (req_id req) (Users s) = Some u"
  shows "r_status (snd (deletePost req s)) = 200
       \<and> r_success (snd (deletePost req s)) = Some True
       \<and> findById p_id i (Posts (fst (deletePost req s))) = None
       \<and> p \<notin> set (Posts (fst (deletePost req s)))
       \<and> (\<forall>c \<in> set (Comments (fst (deletePost req s))). c_post c \<noteq> i)
       \<and> findById u_id (req_id req) (Users (fst (deletePost req s)))
           = Some (u\<lparr>u_posts := filter (\<lambda>j. j \<noteq> i) (u_posts u)\<rparr>)
       \<and> i \<notin> set (filter (\<lambda>j. j \<noteq> i) (u_posts u))"
proof -
  let ?a = "req_id req"
  let ?upd = "\<lambda>v. v\<lparr>u_posts := filter (\<lambda>j. j \<noteq> i) (u_posts u)\<rparr>"
  let ?s' = "s\<lparr>Posts := deleteOne (\<lambda>q. p_id q = i) (Posts s),
               Users := updateOne (\<lambda>v. u_id v = ?a) ?upd (Users s),
               Comments := deleteMany (\<lambda>c. c_post c = i) (Comments s)\<rparr>"
  have pk: "p_id p = i" using assms(3) by (rule findById_Some_key)
  have uk: "u_id u = ?a" using assms(5) by (rule findById_Some_key)
  have run: "deletePost req s =
      (?s', (json 200)\<lparr>r_success := Some True, r_message := Some ''Post deleted''\<rparr>)"
    using assms(2,3,4,5) uk
    by (simp add: deletePost_def deletePost_try_def catch500_def Let_def)
  have gone: "i \<notin> p_id ` set (deleteOne (\<lambda>q. p_id q = i) (Posts s))"
    using assms(1) by (rule deleteOne_distinct)
  then have none: "findById p_id i (Posts ?s') = None"
    by (simp add: findById_None_iff)
  have notin: "p \<notin> set (Posts ?s')"
  proof
    assume "p \<in> set (Posts ?s')"
    then have "p_id p \<in> p_id ` set (deleteOne (\<lambda>q. p_id q = i) (Posts s))"
      by simp
    with gone pk show False by simp
  qed
  have cs: "\<forall>c \<in> set (Comments ?s'). c_post c \<noteq> i"
    by (simp add: deleteMany_def)
  have us: "findById u_id ?a (Users ?s') = Some (?upd u)"
    using assms(5) by (simp add: findById_updateOne_same)
  show ?thesis
    using none notin cs us by (simp add: run json_def)
qed

text \<open>
  Claim C2. In the database where requester 7, who has no user document, has added the
  post 100 and user 2 has commented on it, the delete request of requester 7 for the
  post 100, of which 7 is the author, is answered with status 500 and not with 200; the
  post is gone from the post collection, and the comment that refers to it is still in
  the comment collection. The add-post request of the same requester was answered with
  status 201: \<^verbatim>\<open>addNewPost\<close> tests the user document it looked up before it uses
  it, \<^verbatim>\<open>deletePost\<close> does not.
\<close>

theorem deletePost_author_without_document:
  "map_option p_author (findById p_id 100 (Posts db_no_document)) = Some 7
   \<and> findById u_id 7 (Users db_no_document) = None
   \<and> map c_post (Comments db_no_document) = [100]
   \<and> r_status (snd (deletePost (req_of 7 100) db_no_document)) = 500
   \<and> r_success (snd (deletePost (req_of 7 100) db_no_document)) = Some False
   \<and> findById p_id 100 (Posts (fst (deletePost (req_of 7 100) db_no_document))) = None
   \<and> map c_post (Comments (fst (deletePost (req_of 7 100) db_no_document))) = [100]
   \<and> r_status (snd (addNewPost (env_at 5) (req_upload 7) db0)) = 201"
  by (simp add: deletePost_def deletePost_try_def addNewPost_def addNewPost_try_def
      catch500_def json_def Let_def findById_def db_no_document_eq db0_def post10_def
      alice_def bob_def req_of_def req_upload_def env_at_def)

text \<open>
  With another spelling of the post's id as route parameter the post and its comments
  are deleted, and the id stays in the author's list of owned posts: the filter on that
  list compares strings.
\<close>

lemma deletePost_respelled_keeps_owned_id:
  "r_status (snd (deletePost (req_with 1 (Respelled 10)) db_two_comments)) = 200
   \<and> Posts (fst (deletePost (req_with 1 (Respelled 10)) db_two_comments)) = []
   \<and> Comments (fst (deletePost (req_with 1 (Respelled 10)) db_two_comments)) = []
   \<and> map u_posts (Users (fst (deletePost (req_with 1 (Respelled 10)) db_two_comments)))
       = [[10], []]"
  by (simp add: deletePost_def deletePost_try_def catch500_def json_def Let_def
      deleteMany_def findById_def db_two_comments_eq post10_def alice_def bob_def
      req_with_def req_of_def)

text \<open>
  Claim C3. For a request whose route parameter is the id of an existing post and a
  requester whose id differs from the post's author, the delete request is answered
  with status 403 (the authorization failure), and the database is unchanged: the post
  record is still found under its id, and the comment collection and the user
  collection, with the author's list of owned posts, are as they were.
\<close>

theorem deletePost_by_other:
  assumes "castObjectId (params_id req) = Some i"
    and "findById p_id i (Posts s) = Some p"
    and "p_author p \<noteq> req_id req"
  shows "r_status (snd (deletePost req s)) = 403
       \<and> fst (deletePost req s) = s
       \<and> findById p_id i (Posts (fst (deletePost req s))) = Some p
       \<and> Comments (fst (deletePost req s)) = Comments s
       \<and> Users (fst (deletePost req s)) = Users s"
  using assms by (simp add: deletePost_def deletePost_try_def catch500_def json_def)

theorem deletePost_by_other_witness:
  "castObjectId (params_id (req_of 2 10)) = Some 10
   \<and> findById p_id 10 (Posts db_two_comments) = Some (post10\<lparr>p_comments := [100, 101]\<rparr>)
   \<and> p_author (post10\<lparr>p_comments := [100, 101]\<rparr>) \<noteq> req_id (req_of 2 10)
   \<and> r_status (snd (deletePost (req_of 2 10) db_two_comments)) = 403
   \<and> fst (deletePost (req_of 2 10) db_two_comments) = db_two_comments"
proof -
  have h0: "castObjectId (params_id (req_of 2 10)) = Some 10"
    by (simp add: req_of_def)
  have h1: "findById p_id 10 (Posts db_two_comments)
              = Some (post10\<lparr>p_comments := [100, 101]\<rparr>)"
    by (simp add: db_two_comments_eq findById_def post10_def)
  have h2: "p_author (post10\<lparr>p_comments := [100, 101]\<rparr>) \<noteq> req_id (req_of 2 10)"
    by (simp add: post10_def req_of_def)
  from deletePost_by_other [OF h0 h1 h2] h0 h1 h2
  show ?thesis by blast
qed

section \<open>Adding a comment\<close>

text \<open>
  Claim C10, as amended. For an add-comment request with a non-empty text whose route
  parameter casts to an object id that is the id of no post, the comment document that
  refers to the missing post is appended to the comment collection, so the collection
  has changed, and then the request is answered with status 500 and
  \<^verbatim>\<open>success: false\<close>, without the comment in the response.
\<close>

theorem addComment_missing_post_persists:
  assumes "body_text req = Some t" and "t \<noteq> []"
    and "castObjectId (params_id req) = Some i"
    and "findById p_id i (Posts s) = None"
  shows "Comments (fst (addComment e req s)) =
           Comments s @ [\<lparr>c_id = next_oid s, c_text = t, c_author = req_id req,
                           c_post = i, c_createdAt = now e\<rparr>]
       \<and> Comments (fst (addComment e req s)) \<noteq> Comments s
       \<and> r_status (snd (addComment e req s)) = 500
       \<and> r_success (snd (addComment e req s)) = Some False
       \<and> r_comment (snd (addComment e req s)) = None"
  using assms
  by (simp add: addComment_def addComment_try_def catch500_def json_def falsy_text_def)

theorem addComment_missing_post_persists_witness:
  "body_text (req_of 2 99) = Some ''nice'' \<and> ''nice'' \<noteq> []
   \<and> castObjectId (params_id (req_of 2 99)) = Some 99
   \<and> findById p_id 99 (Posts db0) = None
   \<and> Comments db0 = []
   \<and> Comments (fst (addComment (env_at 7) (req_of 2 99) db0)) =
        Comments db0 @ [\<lparr>c_id = next_oid db0, c_text = ''nice'', c_author = req_id (req_of 2 99),
                           c_post = 99, c_createdAt = now (env_at 7)\<rparr>]
   \<and> r_success (snd (addComment (env_at 7) (req_of 2 99) db0)) = Some False"
proof -
  have h1: "body_text (req_of 2 99) = Some ''nice''" by (simp add: req_of_def)
  have h2: "''nice'' \<noteq> []" by simp
  have h3: "castObjectId (params_id (req_of 2 99)) = Some 99" by (simp add: req_of_def)
  have h4: "findById p_id 99 (Posts db0) = None"
    by (simp add: findById_def db0_def post10_def)
  have h5: "Comments db0 = []" by (simp add: db0_def)
  from addComment_missing_post_persists [OF h1 h2 h3 h4, of "env_at 7"] h1 h2 h3 h4 h5
  show ?thesis by blast
qed

text \<open>
  The claim without the amendment fails at a route parameter that is no spelling of an
  object id: the request of user 2 with the text \<^verbatim>\<open>nice\<close> and the parameter
  \<^verbatim>\<open>99\<close>, which matches no post, is answered with status 500, and the comment
  collection, indeed the whole database, is as it was. The lookup of the post throws
  before the comment is created.
\<close>

theorem addComment_uncastable_id_persists_nothing:
  "body_text (req_with 2 (Uncastable ''99'')) = Some ''nice''
   \<and> \<not> matches_post db0 (params_id (req_with 2 (Uncastable ''99'')))
   \<and> r_status (snd (addComment (env_at 7) (req_with 2 (Uncastable ''99'')) db0)) = 500
   \<and> Comments (fst (addComment (env_at 7) (req_with 2 (Uncastable ''99'')) db0)) = Comments db0
   \<and> fst (addComment (env_at 7) (req_with 2 (Uncastable ''99'')) db0) = db0"
  by (simp add: addComment_def addComment_try_def catch500_def json_def falsy_text_def
      matches_post_def req_with_def req_of_def)

text \<open>
  Claim C1. The add-comment request of user 2 with the text \<^verbatim>\<open>nice\<close> for the post id
  99, which is the id of no post of the example database, is answered with status 500
  and not with 404. The like request for the same missing id is answered with 404: the
  other handlers test the looked-up post before they use it, \<^verbatim>\<open>addComment\<close> does not.
\<close>

theorem addComment_missing_post_status:
  "findById p_id 99 (Posts db0) = None
   \<and> r_status (snd (addComment (env_at 7) (req_of 2 99) db0)) = 500
   \<and> r_status (snd (addComment (env_at 7) (req_of 2 99) db0)) \<noteq> 404
   \<and> r_status (snd (likePost (req_of 2 99) db0)) = 404"
  by (simp add: addComment_def addComment_try_def catch500_def json_def falsy_text_def
      likePost_def likePost_try_def findById_def db0_def post10_def req_of_def env_at_def)

section \<open>The response envelope\<close>

text \<open>
  Claim C5. Two responses carry no \<^verbatim>\<open>success\<close> key: the status 400 response of
  \<^verbatim>\<open>addNewPost\<close> to a request without an image, and the status 403 response of
  \<^verbatim>\<open>deletePost\<close> to a requester who is not the author of the post.
\<close>

theorem responses_without_success:
  "r_status (snd (addNewPost (env_at 9) (req_of 2 10) db0)) = 400
   \<and> r_success (snd (addNewPost (env_at 9) (req_of 2 10) db0)) = None
   \<and> r_status (snd (deletePost (req_of 2 10) db0)) = 403
   \<and> r_success (snd (deletePost (req_of 2 10) db0)) = None"
  by (simp add: addNewPost_def addNewPost_try_def deletePost_def deletePost_try_def
      catch500_def json_def findById_def db0_def post10_def req_of_def)

text \<open>Every other response of every handler carries the key.\<close>

lemma success_written_elsewhere:
  "r_success (snd (getAllPost s)) = Some True"
  "r_success (snd (getUserPost req s)) = Some True"
  "r_success (snd (likePost req s)) \<noteq> None"
  "r_success (snd (dislikePost req s)) \<noteq> None"
  "r_success (snd (addComment e req s)) \<noteq> None"
  "r_success (snd (getCommentsOfPost req s)) \<noteq> None"
  "r_success (snd (bookmarkPost req s)) \<noteq> None"
  "req_file req \<noteq> None \<Longrightarrow> r_success (snd (addNewPost e req s)) \<noteq> None"
  "r_status (snd (deletePost req s)) \<noteq> 403 \<Longrightarrow> r_success (snd (deletePost req s)) \<noteq> None"
  by (auto simp: getAllPost_def getUserPost_def likePost_def likePost_try_def dislikePost_def
        dislikePost_try_def addComment_def addComment_try_def getCommentsOfPost_def
        getCommentsOfPost_try_def bookmarkPost_def bookmarkPost_try_def
        addNewPost_def addNewPost_try_def deletePost_def deletePost_try_def catch500_def
        json_def Let_def split: option.splits sum.splits if_splits)

section \<open>Listing posts\<close>

text \<open>The listing holds every post once, newest first.\<close>

lemma getAllPost_posts_newest_first: "newest_first (post_times (snd (getAllPost s)))"
  using sort_desc_newest_first[of p_createdAt "Posts s"]
  by (simp add: getAllPost_def post_times_def post_with_refs_def json_def comp_def)

lemma getAllPost_all_posts:
  "map_option (\<lambda>vs. mset (map pv_post vs)) (r_posts (snd (getAllPost s))) = Some (mset (Posts s))"
  by (simp add: getAllPost_def post_with_refs_def json_def comp_def mset_sort_desc
      multiset.map_comp)

text \<open>
  The comments attached to a post are the comments of the collection whose id is in the
  post's id array, in the order of the collection.
\<close>

lemma post_with_refs_comments_collection_order:
  "map cv_comment (pv_comments (post_with_refs s p))
     = filter (\<lambda>c. c_id c \<in> set (p_comments p)) (Comments s)"
  by (simp add: post_with_refs_def populate_comments_def comment_with_author_def comp_def)

text \<open>
  Claim C4. After two comments on the one post of the example database, made at the
  times 7 and 8, the list-all-posts operation returns that post with its comments in
  the order 7, 8, which is oldest first and not newest first.
\<close>

theorem getAllPost_comments_oldest_first:
  "post_times (snd (getAllPost db_two_comments)) = [3]
   \<and> comment_times (snd (getAllPost db_two_comments)) = [[7, 8]]
   \<and> \<not> newest_first [7, 8]"
  by (simp add: getAllPost_def post_with_refs_def populate_comments_def
      comment_times_def post_times_def newest_first_def json_def sort_desc_def
      comment_with_author_def populate_summary_def Let_def
      db_two_comments_eq findById_def post10_def alice_def bob_def)

end
